theory Spec2Isabelle
  imports Main "HOL-Library.Multiset"
begin

section \<open>Article renderer (src/js/app.js)\<close>

text \<open>
  The renderer builds one markup string by concatenation. A JavaScript string is
  modelled as a \<^typ>\<open>string\<close>: ASCII characters are themselves, and the fixed
  Japanese labels of the templates are given by their UTF-8 bytes. Template literals
  keep their line breaks and indentation; a \<^verbatim>\<open>${e}\<close> hole is the string \<open>e\<close>.

  The input is the JSON record of the article. Fields that may be missing are
  \<^typ>\<open>'a option\<close>; the code tests them for truthiness, so an empty string counts
  as missing wherever the code writes \<^verbatim>\<open>if (x)\<close> or \<^verbatim>\<open>x || d\<close>, while an
  empty array or an object is truthy.
\<close>

subsection \<open>JavaScript truthiness of an optional string\<close>

definition js_truthy :: "string option \<Rightarrow> bool" where
  "js_truthy v = (case v of None \<Rightarrow> False | Some s \<Rightarrow> s \<noteq> [])"

text \<open>\<^verbatim>\<open>v || d\<close> on an optional string.\<close>

definition js_or :: "string option \<Rightarrow> string \<Rightarrow> string" where
  "js_or v d = (case v of None \<Rightarrow> d | Some s \<Rightarrow> if s = [] then d else s)"

subsection \<open>The article record\<close>

record notice =
  notice_type :: "string option"
  notice_icon :: "string option"
  notice_title :: string
  notice_text :: string

datatype toc_item =
  TocItem (toc_id: string) (toc_number: string) (toc_title: string)
          (toc_children: "toc_item list option")

record infobox_row =
  row_label :: string
  row_value :: string

record infobox =
  infobox_title :: string
  infobox_image :: "string option"
  infobox_imageCaption :: "string option"
  infobox_rows :: "infobox_row list"

text \<open>An entry of \<open>categories\<close> or \<open>relatedLinks\<close>: a plain string, or an object
  with \<open>title\<close> and \<open>url\<close>.\<close>

datatype link = LinkText string | LinkObject (link_title: string) (link_url: string)

record sub_section =
  sub_id :: string
  sub_title :: string
  sub_content :: string

record wikitable =
  table_caption :: "string option"
  table_headers :: "string list"
  table_rows :: "string list list"

record column =
  column_title :: string
  column_items :: "string list"

record external_link =
  ext_title :: string
  ext_url :: string

record article_section =
  section_id :: string
  section_title :: string
  section_content :: "string option"
  section_subsections :: "sub_section list option"
  section_table :: "wikitable option"
  section_columns :: "column list option"
  section_relatedLinks :: "link list option"
  section_references :: "string list option"
  section_externalLinks :: "external_link list option"

record article =
  article_title :: string
  article_intro :: string
  article_notice :: "notice option"
  article_toc :: "toc_item list"
  article_infobox :: "infobox option"
  article_sections :: "article_section list"
  article_categories :: "link list"
  article_lastModified :: "string option"

subsection \<open>Fixed labels of the templates (UTF-8)\<close>

text \<open>U+2139 U+FE0F, the information sign.\<close>
definition info_glyph :: string where
  "info_glyph = [CHR 0xE2, CHR 0x84, CHR 0xB9, CHR 0xEF, CHR 0xB8, CHR 0x8F]"

text \<open>U+76EE U+6B21, "contents".\<close>
definition toc_label :: string where
  "toc_label = [CHR 0xE7, CHR 0x9B, CHR 0xAE, CHR 0xE6, CHR 0xAC, CHR 0xA1]"

text \<open>U+975E U+8868 U+793A, "hide".\<close>
definition hide_label :: string where
  "hide_label = [CHR 0xE9, CHR 0x9D, CHR 0x9E, CHR 0xE8, CHR 0xA1, CHR 0xA8, CHR 0xE7, CHR 0xA4, CHR 0xBA]"

text \<open>U+7DE8 U+96C6, "edit".\<close>
definition edit_label :: string where
  "edit_label = [CHR 0xE7, CHR 0xB7, CHR 0xA8, CHR 0xE9, CHR 0x9B, CHR 0x86]"

text \<open>U+30AB U+30C6 U+30B4 U+30EA, "category".\<close>
definition category_label :: string where
  "category_label = [CHR 0xE3, CHR 0x82, CHR 0xAB, CHR 0xE3, CHR 0x83, CHR 0x86, CHR 0xE3, CHR 0x82, CHR 0xB4, CHR 0xE3, CHR 0x83, CHR 0xAA]"

text \<open>U+6700 U+7D42 U+66F4 U+65B0, "last modified".\<close>
definition last_modified_label :: string where
  "last_modified_label = [CHR 0xE6, CHR 0x9C, CHR 0x80, CHR 0xE7, CHR 0xB5, CHR 0x82, CHR 0xE6, CHR 0x9B, CHR 0xB4, CHR 0xE6, CHR 0x96, CHR 0xB0]"

subsection \<open>renderNotice\<close>

definition renderNotice :: "notice \<Rightarrow> string" where
  \<open>renderNotice n =
     (let typeClass = js_or (notice_type n) ''info'' in
      ''\<newline>            <div class="article-notice '' @ typeClass @ ''">\<newline>                <span class="notice-icon">''
      @ js_or (notice_icon n) info_glyph
      @ ''</span>\<newline>                <div class="notice-content">\<newline>                    <b>''
      @ notice_title n @ ''</b> '' @ notice_text n
      @ ''\<newline>                </div>\<newline>            </div>\<newline>        '')\<close>

subsection \<open>renderToc\<close>

definition toc_open :: string where
  \<open>toc_open =
     ''\<newline>            <div class="toc">\<newline>                <div class="toc-title">\<newline>                    <span>''
     @ toc_label
     @ ''</span>\<newline>                    <span class="toc-toggle" onclick="toggleToc()">[''
     @ hide_label
     @ '']</span>\<newline>                </div>\<newline>                <ul id="toc-list">\<newline>        ''\<close>

text \<open>The body of the inner loop: one child entry appended to \<open>html\<close>. Only the
  child's \<open>id\<close>, \<open>number\<close> and \<open>title\<close> are read.\<close>

definition renderToc_child :: "string \<Rightarrow> toc_item \<Rightarrow> string" where
  \<open>renderToc_child html child =
     html @ ''<li><a href="#'' @ toc_id child @ ''"><span class="toc-number">''
          @ toc_number child @ ''</span> '' @ toc_title child @ ''</a></li>''\<close>

text \<open>The body of the outer loop.\<close>

definition renderToc_item :: "string \<Rightarrow> toc_item \<Rightarrow> string" where
  \<open>renderToc_item html item =
     (let html = html @ ''<li><a href="#'' @ toc_id item @ ''"><span class="toc-number">''
                      @ toc_number item @ ''</span> '' @ toc_title item @ ''</a>'';
          html = (case toc_children item of
                    None \<Rightarrow> html
                  | Some children \<Rightarrow>
                      if length children > 0
                      then foldl renderToc_child (html @ ''<ul>'') children @ ''</ul>''
                      else html)
      in html @ ''</li>'')\<close>

definition renderToc :: "toc_item list \<Rightarrow> string" where
  \<open>renderToc tocItems = foldl renderToc_item toc_open tocItems @ ''</ul></div>''\<close>

subsection \<open>renderInfobox\<close>

definition infobox_image_row :: "string \<Rightarrow> string" where
  \<open>infobox_image_row caption =
     ''\<newline>                <tr>\<newline>                    <td colspan="2" class="infobox-image">\<newline>                        <div class="image-placeholder">\<newline>                            <svg xmlns="http://www.w3.org/2000/svg" width="120" height="120" viewBox="0 0 24 24" fill="none" stroke="#666" stroke-width="1">\<newline>                                <circle cx="12" cy="12" r="10"/>\<newline>                                <path d="M8 14s1.5 2 4 2 4-2 4-2"/>\<newline>                                <circle cx="9" cy="9" r="1" fill="#666"/>\<newline>                                <circle cx="15" cy="9" r="1" fill="#666"/>\<newline>                            </svg>\<newline>                            <p class="image-caption">''
     @ caption
     @ ''</p>\<newline>                        </div>\<newline>                    </td>\<newline>                </tr>\<newline>            ''\<close>

definition renderInfobox_row :: "string \<Rightarrow> infobox_row \<Rightarrow> string" where
  \<open>renderInfobox_row html row =
     html @ ''\<newline>                <tr>\<newline>                    <th>'' @ row_label row
          @ ''</th>\<newline>                    <td>'' @ row_value row
          @ ''</td>\<newline>                </tr>\<newline>            ''\<close>

definition renderInfobox :: "infobox \<Rightarrow> string" where
  \<open>renderInfobox ib =
     (let html = ''\<newline>            <div class="infobox">\<newline>                <table>\<newline>                    <tr class="infobox-header">\<newline>                        <th colspan="2">''
                 @ infobox_title ib
                 @ ''</th>\<newline>                    </tr>\<newline>        '';
          html = (if js_truthy (infobox_image ib) \<or> js_truthy (infobox_imageCaption ib)
                  then html @ infobox_image_row (js_or (infobox_imageCaption ib) '''')
                  else html);
          html = foldl renderInfobox_row html (infobox_rows ib)
      in html @ ''</table></div>'')\<close>

subsection \<open>The parts of a section\<close>

definition renderTable :: "wikitable \<Rightarrow> string" where
  \<open>renderTable t =
     (let html = ''<table class="wikitable">'';
          html = (case table_caption t of
                    None \<Rightarrow> html
                  | Some caption \<Rightarrow>
                      if caption \<noteq> [] then html @ ''<caption>'' @ caption @ ''</caption>''
                      else html);
          html = html @ ''<tr>'';
          html = foldl (\<lambda>html header. html @ ''<th>'' @ header @ ''</th>'') html (table_headers t);
          html = html @ ''</tr>'';
          html = foldl (\<lambda>html row.
                   foldl (\<lambda>html cell. html @ ''<td>'' @ cell @ ''</td>'') (html @ ''<tr>'') row
                   @ ''</tr>'') html (table_rows t)
      in html @ ''</table>'')\<close>

definition renderColumns :: "column list \<Rightarrow> string" where
  \<open>renderColumns columns =
     foldl (\<lambda>html col.
        foldl (\<lambda>html item. html @ ''<li>'' @ item @ ''</li>'')
              (html @ ''<div class="column">'' @ ''<h4>'' @ column_title col @ ''</h4><ul>'')
              (column_items col)
        @ ''</ul></div>'') ''<div class="columns">'' columns
     @ ''</div>''\<close>

text \<open>An object entry whose \<open>url\<close> is the empty string fails the test
  \<^verbatim>\<open>typeof link === 'object' && link.url\<close> and takes the plain branch, where the
  template prints the object itself, that is \<^verbatim>\<open>[object Object]\<close>.\<close>

definition renderLink_entry :: "string \<Rightarrow> link \<Rightarrow> string" where
  \<open>renderLink_entry html l =
     (case l of
        LinkObject title url \<Rightarrow>
          if url \<noteq> []
          then html @ ''<li><a href="'' @ url @ ''" target="_blank">'' @ title @ ''</a></li>''
          else html @ ''<li><a href="#">'' @ ''[object Object]'' @ ''</a></li>''
      | LinkText s \<Rightarrow> html @ ''<li><a href="#">'' @ s @ ''</a></li>'')\<close>

definition renderRelatedLinks :: "link list \<Rightarrow> string" where
  \<open>renderRelatedLinks links =
     foldl renderLink_entry ''<div class="related-links"><ul>'' links @ ''</ul></div>''\<close>

text \<open>\<^verbatim>\<open>${i + 1}\<close>: the decimal digits of a non-negative integer.\<close>

fun string_of_nat :: "nat \<Rightarrow> string" where
  "string_of_nat n =
     (if n < 10 then [''0123456789'' ! n]
      else string_of_nat (n div 10) @ [''0123456789'' ! (n mod 10)])"

declare string_of_nat.simps [simp del]

text \<open>The counting loop of \<open>renderReferences\<close>, from index \<open>i\<close> with the markup so far.\<close>

function renderReferences_loop :: "string list \<Rightarrow> nat \<Rightarrow> string \<Rightarrow> string" where
  \<open>renderReferences_loop refs i html =
     (if i < length refs
      then renderReferences_loop refs (i + 1)
             (html @ ''<li id="ref'' @ string_of_nat (i + 1) @ ''">^ <a href="#">''
                   @ refs ! i @ ''</a></li>'')
      else html)\<close>
  by pat_completeness auto
termination
  by (relation "measure (\<lambda>(refs, i, html). length refs - i)") auto

declare renderReferences_loop.simps [simp del]

definition renderReferences :: "string list \<Rightarrow> string" where
  \<open>renderReferences refs =
     renderReferences_loop refs 0 ''<div class="references"><ol>'' @ ''</ol></div>''\<close>

definition renderExternalLinks :: "external_link list \<Rightarrow> string" where
  \<open>renderExternalLinks links =
     foldl (\<lambda>html l. html @ ''<li><a href="'' @ ext_url l @ ''" class="external">''
                          @ ext_title l @ ''</a></li>'') ''<ul>'' links
     @ ''</ul>''\<close>

definition renderCategories :: "link list \<Rightarrow> string" where
  \<open>renderCategories categories =
     foldl renderLink_entry
       (''<div class="categories"><span class="categories-title">'' @ category_label @ '':</span><ul>'')
       categories
     @ ''</ul></div>''\<close>

subsection \<open>renderSection\<close>

definition renderSection :: "article_section \<Rightarrow> string" where
  \<open>renderSection s =
     (let html = ''<section id="'' @ section_id s @ ''">'';
          html = html @ ''<h2><span class="section-edit">[<a href="#">'' @ edit_label
                      @ ''</a>]</span>'' @ section_title s @ ''</h2>'';
          html = (case section_content s of
                    None \<Rightarrow> html
                  | Some content \<Rightarrow> if content \<noteq> [] then html @ content else html);
          html = (case section_subsections s of
                    None \<Rightarrow> html
                  | Some subs \<Rightarrow>
                      foldl (\<lambda>html sub. html @ ''<h3 id="'' @ sub_id sub @ ''">'' @ sub_title sub
                                             @ ''</h3>'' @ sub_content sub) html subs);
          html = (case section_table s of None \<Rightarrow> html | Some t \<Rightarrow> html @ renderTable t);
          html = (case section_columns s of None \<Rightarrow> html | Some cs \<Rightarrow> html @ renderColumns cs);
          html = (case section_relatedLinks s of
                    None \<Rightarrow> html | Some ls \<Rightarrow> html @ renderRelatedLinks ls);
          html = (case section_references s of
                    None \<Rightarrow> html | Some rs \<Rightarrow> html @ renderReferences rs);
          html = (case section_externalLinks s of
                    None \<Rightarrow> html | Some ls \<Rightarrow> html @ renderExternalLinks ls)
      in html @ ''</section>'')\<close>

subsection \<open>renderArticle\<close>

text \<open>The value is the markup that \<open>renderArticle\<close> assigns to the article
  container.\<close>

definition renderArticle :: "article \<Rightarrow> string" where
  \<open>renderArticle data =
     (let html = '''';
          html = (case article_notice data of
                    None \<Rightarrow> html | Some n \<Rightarrow> html @ renderNotice n);
          html = html @ ''<h1 class="article-title">'' @ article_title data @ ''</h1>'';
          html = html @ ''<div class="article-intro"><p>'' @ article_intro data @ ''</p></div>'';
          html = html @ renderToc (article_toc data);
          html = (case article_infobox data of
                    None \<Rightarrow> html | Some ib \<Rightarrow> html @ renderInfobox ib);
          html = foldl (\<lambda>html section. html @ renderSection section) html (article_sections data);
          html = html @ renderCategories (article_categories data);
          html = (case article_lastModified data of
                    None \<Rightarrow> html
                  | Some lm \<Rightarrow>
                      if lm \<noteq> []
                      then html @ ''<div class="last-modified">'' @ last_modified_label @ '' '' @ lm
                                @ ''</div>''
                      else html)
      in html)\<close>

subsection \<open>Notions used to state the properties of the renderer\<close>


text \<open>A table-of-contents entry cut to the two levels the renderer reads:
  \<open>drop_children\<close> removes the \<open>children\<close> field of an entry, and \<open>two_levels\<close>
  removes it from every child of a top-level entry.\<close>

definition drop_children :: "toc_item \<Rightarrow> toc_item" where
  "drop_children c = TocItem (toc_id c) (toc_number c) (toc_title c) None"

definition two_levels :: "toc_item \<Rightarrow> toc_item" where
  "two_levels item =
     TocItem (toc_id item) (toc_number item) (toc_title item)
             (map_option (map drop_children) (toc_children item))"

text \<open>Sample inputs.\<close>

definition demo_minimal :: article where
  "demo_minimal =
     \<lparr>article_title = ''Logic'',
      article_intro = ''The study of reasoning.'',
      article_notice = None,
      article_toc = [],
      article_infobox = None,
      article_sections =
        [\<lparr>section_id = ''history'', section_title = ''History'', section_content = None,
          section_subsections = None, section_table = None, section_columns = None,
          section_relatedLinks = None, section_references = None,
          section_externalLinks = None\<rparr>,
         \<lparr>section_id = ''systems'', section_title = ''Systems'', section_content = None,
          section_subsections = None, section_table = None, section_columns = None,
          section_relatedLinks = None, section_references = None,
          section_externalLinks = None\<rparr>],
      article_categories = [LinkText ''Philosophy''],
      article_lastModified = None\<rparr>"

definition demo_notice :: notice where
  "demo_notice =
     \<lparr>notice_type = Some ''warning'', notice_icon = None,
      notice_title = ''Archived'', notice_text = ''This page is no longer updated.''\<rparr>"

text \<open>An article with three sections that carry content of different kinds.\<close>

definition demo_article :: article where
  \<open>demo_article =
     demo_minimal\<lparr>article_sections :=
       [\<lparr>section_id = ''history'', section_title = ''History'',
         section_content = Some ''<p>Aristotle.</p>'',
         section_subsections = None, section_table = None, section_columns = None,
         section_relatedLinks = None, section_references = None,
         section_externalLinks = None\<rparr>,
        \<lparr>section_id = ''systems'', section_title = ''Systems'', section_content = None,
         section_subsections =
           Some [\<lparr>sub_id = ''modal'', sub_title = ''Modal logic'', sub_content = ''<p>Kripke.</p>''\<rparr>],
         section_table = None, section_columns = None,
         section_relatedLinks = None, section_references = None,
         section_externalLinks = None\<rparr>,
        \<lparr>section_id = ''notes'', section_title = ''Notes'', section_content = None,
         section_subsections = None, section_table = None, section_columns = None,
         section_relatedLinks = None, section_references = None,
         section_externalLinks = Some [\<lparr>ext_title = ''Archive'', ext_url = ''https://example.org''\<rparr>]\<rparr>]\<rparr>\<close>

section \<open>Fragment assembler (src/js/parts-loader.js)\<close>

text \<open>
  The assembler fetches markup and splices it into the page through the DOM. The page
  is a tree: a node is a text node or an element with a label and its child nodes.
  An element is addressed by its path, the child indices from the root element down
  (the empty path is the root element itself).

  What the browser supplies is a parameter of the model:
  \<^item> \<open>fetch_text path\<close> is the outcome of \<^verbatim>\<open>fetch(path)\<close> followed by
    \<^verbatim>\<open>response.text()\<close>: the body, or \<open>None\<close> when the request fails or the
    status is not ok (the code throws in both cases);
  \<^item> \<open>parse_fragment html\<close> is the list of nodes the HTML parser makes of a string;
  \<^item> \<open>valid_selector selector\<close> tells whether the string is a selector at all
    (\<^verbatim>\<open>querySelector\<close> throws a \<open>SyntaxError\<close> otherwise);
  \<^item> \<open>matches selector label\<close> tells whether a selector matches an element.
  A fetch that never completes is outside the model.
\<close>

subsection \<open>The page\<close>

datatype node = Text string | Element string "node list"

type_synonym path = "nat list"

record platform =
  fetch_text :: "string \<Rightarrow> string option"
  parse_fragment :: "string \<Rightarrow> node list"
  valid_selector :: "string \<Rightarrow> bool"
  matches :: "string \<Rightarrow> string \<Rightarrow> bool"

datatype error = FetchFailed string | SyntaxError string | NoModificationAllowedError

datatype log_entry = Warn string | Error error

record page =
  dom :: node
  console :: "log_entry list"

fun subtree :: "node \<Rightarrow> path \<Rightarrow> node option" where
  "subtree n [] = Some n"
| "subtree (Text t) (i # p) = None"
| "subtree (Element l cs) (i # p) = (if i < length cs then subtree (cs ! i) p else None)"

text \<open>The element at a path, with its child list replaced by \<open>f\<close> of it.\<close>

fun update_children :: "path \<Rightarrow> (node list \<Rightarrow> node list) \<Rightarrow> node \<Rightarrow> node" where
  "update_children [] f (Element l cs) = Element l (f cs)"
| "update_children (i # p) f (Element l cs) =
     (if i < length cs then Element l (cs[i := update_children p f (cs ! i)])
      else Element l cs)"
| "update_children p f (Text t) = Text t"

subsection \<open>The DOM operations the assembler calls\<close>

text \<open>\<^verbatim>\<open>document.querySelector\<close>: the first element in tree order that the
  selector matches, the root element included, or \<open>None\<close> for \<^verbatim>\<open>null\<close>; a
  string that is not a selector throws.\<close>

fun querySelector_node :: "(string \<Rightarrow> bool) \<Rightarrow> node \<Rightarrow> path option"
  and querySelector_list :: "(string \<Rightarrow> bool) \<Rightarrow> nat \<Rightarrow> node list \<Rightarrow> path option" where
  "querySelector_node m (Text t) = None"
| "querySelector_node m (Element l cs) = (if m l then Some [] else querySelector_list m 0 cs)"
| "querySelector_list m i [] = None"
| "querySelector_list m i (c # cs) =
     (case querySelector_node m c of
        Some p \<Rightarrow> Some (i # p)
      | None \<Rightarrow> querySelector_list m (Suc i) cs)"

definition querySelector :: "platform \<Rightarrow> string \<Rightarrow> node \<Rightarrow> error + path option" where
  "querySelector pf selector d =
     (if valid_selector pf selector then Inr (querySelector_node (matches pf selector) d)
      else Inl (SyntaxError selector))"

text \<open>\<^verbatim>\<open>target.innerHTML = html\<close>: the parsed markup becomes the whole child list.\<close>

definition set_innerHTML :: "platform \<Rightarrow> path \<Rightarrow> string \<Rightarrow> node \<Rightarrow> node" where
  "set_innerHTML pf target html d = update_children target (\<lambda>cs. parse_fragment pf html) d"

text \<open>\<^verbatim>\<open>target.insertAdjacentHTML(position, html)\<close>. For \<open>beforebegin\<close> and
  \<open>afterend\<close> the nodes go into the child list of the parent; the DOM throws
  \<open>NoModificationAllowedError\<close> when the target has no parent element, which for an
  element found by \<open>querySelector\<close> is the case of the root element.\<close>

datatype adjacent = Beforebegin | Afterbegin | Beforeend | Afterend

fun insertAdjacentHTML :: "platform \<Rightarrow> path \<Rightarrow> adjacent \<Rightarrow> string \<Rightarrow> node \<Rightarrow> error + node" where
  "insertAdjacentHTML pf target Beforeend html d =
     Inr (update_children target (\<lambda>cs. cs @ parse_fragment pf html) d)"
| "insertAdjacentHTML pf target Afterbegin html d =
     Inr (update_children target (\<lambda>cs. parse_fragment pf html @ cs) d)"
| "insertAdjacentHTML pf target Beforebegin html d =
     (if target = [] then Inl NoModificationAllowedError
      else Inr (update_children (butlast target)
                  (\<lambda>cs. take (last target) cs @ parse_fragment pf html @ drop (last target) cs) d))"
| "insertAdjacentHTML pf target Afterend html d =
     (if target = [] then Inl NoModificationAllowedError
      else Inr (update_children (butlast target)
                  (\<lambda>cs. take (Suc (last target)) cs @ parse_fragment pf html
                         @ drop (Suc (last target)) cs) d))"

subsection \<open>loadPart\<close>

text \<open>The body of the \<^verbatim>\<open>try\<close> block: \<open>Inl\<close> is a thrown error.\<close>

definition loadPart_try :: "platform \<Rightarrow> string \<Rightarrow> string \<Rightarrow> string \<Rightarrow> page \<Rightarrow> error + page" where
  "loadPart_try pf partPath targetSelector insertPosition pg =
     (case fetch_text pf partPath of
        None \<Rightarrow> Inl (FetchFailed partPath)
      | Some html \<Rightarrow>
          (case querySelector pf targetSelector (dom pg) of
             Inl e \<Rightarrow> Inl e
           | Inr None \<Rightarrow> Inr (pg\<lparr>console := console pg @ [Warn targetSelector]\<rparr>)
           | Inr (Some target) \<Rightarrow>
               if insertPosition = ''append''
               then map_sum id (\<lambda>d. pg\<lparr>dom := d\<rparr>)
                      (insertAdjacentHTML pf target Beforeend html (dom pg))
               else if insertPosition = ''prepend''
               then map_sum id (\<lambda>d. pg\<lparr>dom := d\<rparr>)
                      (insertAdjacentHTML pf target Afterbegin html (dom pg))
               else if insertPosition = ''before''
               then map_sum id (\<lambda>d. pg\<lparr>dom := d\<rparr>)
                      (insertAdjacentHTML pf target Beforebegin html (dom pg))
               else if insertPosition = ''after''
               then map_sum id (\<lambda>d. pg\<lparr>dom := d\<rparr>)
                      (insertAdjacentHTML pf target Afterend html (dom pg))
               else Inr (pg\<lparr>dom := set_innerHTML pf target html (dom pg)\<rparr>)))"

text \<open>\<open>loadPart\<close> with its \<^verbatim>\<open>catch\<close>: the value is how the returned promise
  settles, \<open>Inr\<close> fulfilled with the page as it then is, \<open>Inl\<close> rejected. An omitted
  \<open>insertPosition\<close> is \<open>None\<close> and takes the default \<open>replace\<close>.\<close>

definition loadPart :: "platform \<Rightarrow> string \<Rightarrow> string \<Rightarrow> string option \<Rightarrow> page \<Rightarrow> error + page" where
  "loadPart pf partPath targetSelector insertPosition pg =
     (case loadPart_try pf partPath targetSelector
             (case insertPosition of None \<Rightarrow> ''replace'' | Some p \<Rightarrow> p) pg of
        Inl e \<Rightarrow> Inr (pg\<lparr>console := console pg @ [Error e]\<rparr>)
      | Inr pg' \<Rightarrow> Inr pg')"

subsection \<open>loadParts\<close>

record part =
  part_path :: string
  part_selector :: string
  part_position :: "string option"

text \<open>One call of the mapped arrow function, run from the completion of its fetch
  to its end. Nothing is awaited after the response text, so the selector lookup and
  the splice of one part are not interleaved with those of another part.\<close>

definition loadParts_call :: "platform \<Rightarrow> part \<Rightarrow> page \<Rightarrow> error + page" where
  "loadParts_call pf p pg =
     loadPart pf (part_path p) (part_selector p) (Some (js_or (part_position p) ''replace'')) pg"

text \<open>The calls settle one after another, in the order in which their fetches
  complete; \<^verbatim>\<open>Promise.all\<close> is rejected by the first rejected call.\<close>

fun settle :: "platform \<Rightarrow> part list \<Rightarrow> page \<Rightarrow> error + page" where
  "settle pf [] pg = Inr pg"
| "settle pf (p # ps) pg =
     (case loadParts_call pf p pg of
        Inl e \<Rightarrow> Inl e
      | Inr pg' \<Rightarrow> settle pf ps pg')"

text \<open>All calls are started at once. \<open>order\<close> lists the indices of \<open>parts\<close> in the
  order in which the fetches complete: it is a permutation of the indices and is
  chosen by the network, not by the code.\<close>

definition loadParts :: "platform \<Rightarrow> part list \<Rightarrow> nat list \<Rightarrow> page \<Rightarrow> error + page" where
  "loadParts pf parts order pg = settle pf (map (\<lambda>i. parts ! i) order) pg"

text \<open>The parts of \<open>loadStandardLayout\<close>.\<close>

definition standardLayout :: "part list" where
  "standardLayout =
     [\<lparr>part_path = ''parts/header.html'', part_selector = ''#header-placeholder'',
       part_position = Some ''replace''\<rparr>,
      \<lparr>part_path = ''parts/sidebar.html'', part_selector = ''#sidebar-placeholder'',
       part_position = Some ''replace''\<rparr>,
      \<lparr>part_path = ''parts/article-tabs.html'', part_selector = ''#article-tabs-placeholder'',
       part_position = Some ''replace''\<rparr>,
      \<lparr>part_path = ''parts/footer.html'', part_selector = ''#footer-placeholder'',
       part_position = Some ''replace''\<rparr>]"

text \<open>A sample platform: the sidebar cannot be fetched, every other path yields a
  body; a fragment is kept as one text node; every non-empty string is a selector, and
  a selector \<open>#x\<close> matches the element labelled \<open>x\<close>. And a sample page with the four placeholders.\<close>

definition demo_platform :: platform where
  "demo_platform =
     \<lparr>fetch_text = (\<lambda>p. if p = ''parts/sidebar.html'' then None else Some (''content of '' @ p)),
      parse_fragment = (\<lambda>html. [Text html]),
      valid_selector = (\<lambda>selector. selector \<noteq> []),
      matches = (\<lambda>selector l. selector = CHR ''#'' # l)\<rparr>"

definition demo_page :: page where
  "demo_page =
     \<lparr>dom = Element ''root''
              [Element ''header-placeholder'' [],
               Element ''main''
                 [Element ''sidebar-placeholder'' [Text ''loading''],
                  Element ''article-tabs-placeholder'' [Text ''loading'']],
               Element ''footer-placeholder'' []],
      console = []\<rparr>"

text \<open>The sample page with the header, article-tabs and footer placeholders filled
  or not.\<close>

definition demo_filled :: "bool \<Rightarrow> bool \<Rightarrow> bool \<Rightarrow> node" where
  "demo_filled h t f =
     Element ''root''
       [Element ''header-placeholder''
          (if h then [Text ''content of parts/header.html''] else []),
        Element ''main''
          [Element ''sidebar-placeholder'' [Text ''loading''],
           Element ''article-tabs-placeholder''
             (if t then [Text ''content of parts/article-tabs.html''] else [Text ''loading''])],
        Element ''footer-placeholder''
          (if f then [Text ''content of parts/footer.html''] else [])]"

subsection \<open>What the parts ask of the page\<close>










text \<open>Two notions used in the proofs: the node at a path replaced by a list of nodes,
  and an action map that only acts on elements for which \<open>T\<close> holds and only inserts
  nodes free of such elements.\<close>

fun subst :: "path \<Rightarrow> (node \<Rightarrow> node list) \<Rightarrow> node \<Rightarrow> node list" where
  "subst [] R n = R n"
| "subst (j # q) R (Element l cs) =
     (if j < length cs then [Element l (take j cs @ subst q R (cs ! j) @ drop (Suc j) cs)]
      else [Element l cs])"
| "subst (j # q) R (Text t) = [Text t]"






section \<open>Properties of the renderer\<close>

subsection \<open>Loops as concatenations\<close>

lemma foldl_append_concat: "foldl (\<lambda>h x. h @ f x) h xs = h @ concat (map f xs)"
  by (induction xs arbitrary: h) simp_all

lemma foldl_renderToc_child:
  "foldl renderToc_child html cs = html @ concat (map (renderToc_child []) cs)"
  by (induction cs arbitrary: html) (simp_all add: renderToc_child_def)

lemma renderToc_item_append:
  "renderToc_item html item = html @ renderToc_item [] item"
  by (simp add: renderToc_item_def Let_def foldl_renderToc_child split: option.splits)

lemma foldl_renderToc_item:
  "foldl renderToc_item html items = html @ concat (map (renderToc_item []) items)"
proof (induction items arbitrary: html)
  case Nil
  show ?case by simp
next
  case (Cons x xs)
  have "foldl renderToc_item html (x # xs) = foldl renderToc_item (renderToc_item html x) xs"
    by simp
  also have "\<dots> = renderToc_item html x @ concat (map (renderToc_item []) xs)"
    by (rule Cons.IH)
  also have "\<dots> = html @ renderToc_item [] x @ concat (map (renderToc_item []) xs)"
    using renderToc_item_append [of html x] by simp
  finally show ?case by simp
qed

lemma renderLink_entry_append: "renderLink_entry html l = html @ renderLink_entry [] l"
  by (simp add: renderLink_entry_def split: link.splits)

lemma foldl_renderLink_entry:
  "foldl renderLink_entry html ls = html @ concat (map (renderLink_entry []) ls)"
proof (induction ls arbitrary: html)
  case Nil
  show ?case by simp
next
  case (Cons l ls)
  show ?case
    using Cons.IH [of "renderLink_entry html l"] renderLink_entry_append [of html l]
    by simp
qed

text \<open>The invariant of the counting loop: from index \<open>i\<close> on, one entry per
  remaining reference is appended.\<close>

lemma renderReferences_loop_concat:
  \<open>renderReferences_loop refs i html =
     html @ concat (map (\<lambda>k. ''<li id="ref'' @ string_of_nat (k + 1) @ ''">^ <a href="#">''
                               @ refs ! k @ ''</a></li>'') [i..<length refs])\<close>
proof (induction refs i html rule: renderReferences_loop.induct)
  case (1 refs i html)
  show ?case
  proof (cases "i < length refs")
    case True
    then have "[i..<length refs] = i # [i + 1..<length refs]"
      by (simp add: upt_conv_Cons)
    with True 1 show ?thesis
      by (subst renderReferences_loop.simps) simp
  next
    case False
    then show ?thesis
      by (subst renderReferences_loop.simps) simp
  qed
qed

lemma renderToc_child_drop: "renderToc_child html (drop_children c) = renderToc_child html c"
  by (simp add: renderToc_child_def drop_children_def)

lemma renderToc_item_two_levels: "renderToc_item html (two_levels item) = renderToc_item html item"
  by (cases "toc_children item")
     (simp_all add: renderToc_item_def Let_def two_levels_def foldl_renderToc_child
        renderToc_child_drop comp_def)


subsection \<open>The minimal record\<close>



subsection \<open>The table of contents has two levels\<close>

text \<open>
  Claim C2. For a table of contents of one parent entry with two children, the rendered
  list holds one outer list item that contains a nested list of two items. For every
  table of contents, the markup does not depend on a \<open>children\<close> field carried by a
  child: rendering the entries cut to two levels gives the same markup, so no third
  level is ever emitted.
\<close>

theorem renderToc_two_levels:
  \<open>renderToc [TocItem i n t (Some [c1, c2])] =
       toc_open
       @ ''<li><a href="#'' @ i @ ''"><span class="toc-number">'' @ n @ ''</span> '' @ t @ ''</a>''
       @ ''<ul>''
       @ ''<li><a href="#'' @ toc_id c1 @ ''"><span class="toc-number">'' @ toc_number c1
       @ ''</span> '' @ toc_title c1 @ ''</a></li>''
       @ ''<li><a href="#'' @ toc_id c2 @ ''"><span class="toc-number">'' @ toc_number c2
       @ ''</span> '' @ toc_title c2 @ ''</a></li>''
       @ ''</ul>''
       @ ''</li>''
       @ ''</ul></div>''
     \<and> renderToc (map two_levels items) = renderToc items\<close>
proof
  show \<open>renderToc [TocItem i n t (Some [c1, c2])] =
       toc_open
       @ ''<li><a href="#'' @ i @ ''"><span class="toc-number">'' @ n @ ''</span> '' @ t @ ''</a>''
       @ ''<ul>''
       @ ''<li><a href="#'' @ toc_id c1 @ ''"><span class="toc-number">'' @ toc_number c1
       @ ''</span> '' @ toc_title c1 @ ''</a></li>''
       @ ''<li><a href="#'' @ toc_id c2 @ ''"><span class="toc-number">'' @ toc_number c2
       @ ''</span> '' @ toc_title c2 @ ''</a></li>''
       @ ''</ul>''
       @ ''</li>''
       @ ''</ul></div>''\<close>
    by (simp add: renderToc_def renderToc_item_def Let_def renderToc_child_def)
next
  have "map (renderToc_item []) (map two_levels items) = map (renderToc_item []) items"
    by (simp add: renderToc_item_two_levels)
  then show "renderToc (map two_levels items) = renderToc items"
    by (simp only: renderToc_def foldl_renderToc_item)
qed

subsection \<open>References are numbered from one\<close>

text \<open>\<open>string_of_nat\<close> writes decimal digits: reading them back gives the number.\<close>

lemma digit_char: "d < 10 \<Longrightarrow> of_char (''0123456789'' ! d) = (48::nat) + d"
proof -
  assume "d < 10"
  then have "d \<in> set [0..<10]" by simp
  then have "d \<in> {0, 1, 2, 3, 4, 5, 6, 7, 8, 9}"
    by (simp add: upt_rec eval_nat_numeral)
  then show ?thesis
    by (elim insertE emptyE) simp_all
qed

lemma string_of_nat_decimal:
  "foldl (\<lambda>a c. 10 * a + (of_char c - 48)) 0 (string_of_nat n) = n"
proof (induction n rule: string_of_nat.induct)
  case (1 n)
  show ?case
  proof (cases "n < 10")
    case True
    then show ?thesis
      by (subst string_of_nat.simps) (simp add: digit_char)
  next
    case False
    with 1 have "foldl (\<lambda>a c. 10 * a + (of_char c - 48)) 0 (string_of_nat (n div 10)) = n div 10"
      by simp
    with False show ?thesis
      by (subst string_of_nat.simps) (simp add: digit_char)
  qed
qed

text \<open>
  Claim C5. For every list of references and every index \<open>i\<close> into it (counted from
  zero), the rendered references block is a numbered list whose entry for item \<open>i\<close>
  comes after exactly the entries of the items before it, has the anchor id
  \<open>ref\<close> followed by the decimal digits of \<open>i + 1\<close>, and shows the reference
  text itself inside an anchor whose target is \<open>#\<close>.
\<close>

theorem renderReferences_entry:
  \<open>i < length refs \<Longrightarrow>
     renderReferences refs =
       ''<div class="references"><ol>''
       @ concat (map (\<lambda>k. ''<li id="ref'' @ string_of_nat (k + 1) @ ''">^ <a href="#">''
                               @ refs ! k @ ''</a></li>'') [0..<i])
       @ (''<li id="ref'' @ string_of_nat (i + 1) @ ''">^ <a href="#">'' @ refs ! i @ ''</a></li>'')
       @ concat (map (\<lambda>k. ''<li id="ref'' @ string_of_nat (k + 1) @ ''">^ <a href="#">''
                               @ refs ! k @ ''</a></li>'') [Suc i..<length refs])
       @ ''</ol></div>''\<close>
proof -
  assume lt: "i < length refs"
  then have "[0..<length refs] = [0..<i] @ i # [Suc i..<length refs]"
    using upt_conv_Cons [of i "length refs"] upt_add_eq_append [of 0 i "length refs - i"]
    by simp
  then show ?thesis
    by (simp add: renderReferences_def renderReferences_loop_concat)
qed

theorem renderReferences_entry_witness:
  \<open>(1::nat) < length [''Knuth 1968'', ''Turing 1936'', ''Church 1936''] \<and>
   renderReferences [''Knuth 1968'', ''Turing 1936'', ''Church 1936''] =
     ''<div class="references"><ol>''
     @ ''<li id="ref1">^ <a href="#">Knuth 1968</a></li>''
     @ ''<li id="ref2">^ <a href="#">Turing 1936</a></li>''
     @ ''<li id="ref3">^ <a href="#">Church 1936</a></li>''
     @ ''</ol></div>''\<close>
  using renderReferences_entry [of 1 "[''Knuth 1968'', ''Turing 1936'', ''Church 1936'']"]
  by (simp add: upt_rec string_of_nat.simps)

subsection \<open>Categories: plain entries and linked entries\<close>

text \<open>
  Claim C6, as amended. For every categories list that mixes plain strings and objects
  with \<open>title\<close> and \<open>url\<close>, where the \<open>url\<close> of each object is not the empty string,
  each plain entry is rendered as an anchor to \<open>#\<close> and each object as an anchor to its
  \<open>url\<close> with \<open>target="_blank"\<close>, in the order of the list.

  The claim as written covers every object entry. An object whose \<open>url\<close> is the empty
  string fails the truthiness test of the code and is rendered by the plain branch, as
  an anchor to \<open>#\<close> around the text \<open>[object Object]\<close>.
\<close>

theorem renderCategories_entries:
  \<open>\<forall>c \<in> set categories. \<forall>t. c \<noteq> LinkObject t '''' \<Longrightarrow>
     renderCategories categories =
       ''<div class="categories"><span class="categories-title">'' @ category_label @ '':</span><ul>''
       @ concat (map (\<lambda>c. case c of
                     LinkText s \<Rightarrow> ''<li><a href="#">'' @ s @ ''</a></li>''
                   | LinkObject t u \<Rightarrow>
                       ''<li><a href="'' @ u @ ''" target="_blank">'' @ t @ ''</a></li>'')
                 categories)
       @ ''</ul></div>''\<close>
proof -
  assume ne: \<open>\<forall>c \<in> set categories. \<forall>t. c \<noteq> LinkObject t ''''\<close>
  have eq: \<open>map (renderLink_entry []) categories =
        map (\<lambda>c. case c of
                     LinkText s \<Rightarrow> ''<li><a href="#">'' @ s @ ''</a></li>''
                   | LinkObject t u \<Rightarrow>
                       ''<li><a href="'' @ u @ ''" target="_blank">'' @ t @ ''</a></li>'')
            categories\<close>
    using ne by (auto simp: renderLink_entry_def split: link.splits)
  show ?thesis
    unfolding renderCategories_def foldl_renderLink_entry eq by (simp only: append_assoc)
qed

theorem renderCategories_entries_witness:
  \<open>list_all (\<lambda>c. \<forall>t. c \<noteq> LinkObject t '''')
     [LinkText ''Logic'', LinkObject ''Sets'' ''https://example.org/sets''] \<and>
   renderCategories [LinkText ''Logic'', LinkObject ''Sets'' ''https://example.org/sets''] =
     ''<div class="categories"><span class="categories-title">'' @ category_label @ '':</span><ul>''
     @ ''<li><a href="#">Logic</a></li>''
     @ ''<li><a href="https://example.org/sets" target="_blank">Sets</a></li>''
     @ ''</ul></div>''\<close>
  using renderCategories_entries [of "[LinkText ''Logic'', LinkObject ''Sets'' ''https://example.org/sets'']"]
  by simp

text \<open>The object entry \<open>{title: "Sets", url: ""}\<close> is rendered as a plain entry, not
  as an anchor to its \<open>url\<close> with \<open>target="_blank"\<close>.\<close>

theorem renderCategories_empty_url_counterexample:
  \<open>renderCategories [LinkObject ''Sets'' ''''] =
     ''<div class="categories"><span class="categories-title">'' @ category_label @ '':</span><ul>''
     @ ''<li><a href="#">[object Object]</a></li>''
     @ ''</ul></div>''
   \<and> renderCategories [LinkObject ''Sets'' ''''] \<noteq>
     ''<div class="categories"><span class="categories-title">'' @ category_label @ '':</span><ul>''
     @ ''<li><a href="" target="_blank">Sets</a></li>''
     @ ''</ul></div>''\<close>
  by (simp add: renderCategories_def renderLink_entry_def)

subsection \<open>Sections keep their order\<close>

text \<open>
  Claim C8. For every article record, the rendered markup is the head of the page
  (notice, title, intro, table of contents, infobox), then the section blocks, one per
  entry of \<open>sections\<close> and in the order of that list, then the tail of the page
  (categories, last-modified line). The block of a section is recognisable as its own:
  it opens with the \<open>section\<close> tag that carries the section's \<open>id\<close> and the
  heading that carries its \<open>title\<close>, holds the section's content, subsections, table,
  columns, related links, references and external links, and closes with the end tag.
\<close>

theorem renderArticle_section_order:
  \<open>renderArticle a =
       (case article_notice a of None \<Rightarrow> '''' | Some n \<Rightarrow> renderNotice n)
       @ ''<h1 class="article-title">'' @ article_title a @ ''</h1>''
       @ ''<div class="article-intro"><p>'' @ article_intro a @ ''</p></div>''
       @ renderToc (article_toc a)
       @ (case article_infobox a of None \<Rightarrow> '''' | Some ib \<Rightarrow> renderInfobox ib)
       @ concat (map renderSection (article_sections a))
       @ renderCategories (article_categories a)
       @ (case article_lastModified a of
            None \<Rightarrow> ''''
          | Some lm \<Rightarrow> if lm = '''' then ''''
                       else ''<div class="last-modified">'' @ last_modified_label @ '' '' @ lm
                            @ ''</div>'')
     \<and> (\<forall>s. renderSection s =
            ''<section id="'' @ section_id s @ ''">''
            @ ''<h2><span class="section-edit">[<a href="#">'' @ edit_label @ ''</a>]</span>''
            @ section_title s @ ''</h2>''
            @ (case section_content s of None \<Rightarrow> '''' | Some content \<Rightarrow> content)
            @ (case section_subsections s of
                 None \<Rightarrow> ''''
               | Some subs \<Rightarrow>
                   concat (map (\<lambda>sub. ''<h3 id="'' @ sub_id sub @ ''">'' @ sub_title sub
                                       @ ''</h3>'' @ sub_content sub) subs))
            @ (case section_table s of None \<Rightarrow> '''' | Some t \<Rightarrow> renderTable t)
            @ (case section_columns s of None \<Rightarrow> '''' | Some cs \<Rightarrow> renderColumns cs)
            @ (case section_relatedLinks s of None \<Rightarrow> '''' | Some ls \<Rightarrow> renderRelatedLinks ls)
            @ (case section_references s of None \<Rightarrow> '''' | Some rs \<Rightarrow> renderReferences rs)
            @ (case section_externalLinks s of None \<Rightarrow> '''' | Some ls \<Rightarrow> renderExternalLinks ls)
            @ ''</section>'')\<close>
proof (intro conjI allI)
  show \<open>renderArticle a =
       (case article_notice a of None \<Rightarrow> '''' | Some n \<Rightarrow> renderNotice n)
       @ ''<h1 class="article-title">'' @ article_title a @ ''</h1>''
       @ ''<div class="article-intro"><p>'' @ article_intro a @ ''</p></div>''
       @ renderToc (article_toc a)
       @ (case article_infobox a of None \<Rightarrow> '''' | Some ib \<Rightarrow> renderInfobox ib)
       @ concat (map renderSection (article_sections a))
       @ renderCategories (article_categories a)
       @ (case article_lastModified a of
            None \<Rightarrow> ''''
          | Some lm \<Rightarrow> if lm = '''' then ''''
                       else ''<div class="last-modified">'' @ last_modified_label @ '' '' @ lm
                            @ ''</div>'')\<close>
    by (simp add: renderArticle_def Let_def foldl_append_concat split: option.splits)
next
  fix s
  show \<open>renderSection s =
            ''<section id="'' @ section_id s @ ''">''
            @ ''<h2><span class="section-edit">[<a href="#">'' @ edit_label @ ''</a>]</span>''
            @ section_title s @ ''</h2>''
            @ (case section_content s of None \<Rightarrow> '''' | Some content \<Rightarrow> content)
            @ (case section_subsections s of
                 None \<Rightarrow> ''''
               | Some subs \<Rightarrow>
                   concat (map (\<lambda>sub. ''<h3 id="'' @ sub_id sub @ ''">'' @ sub_title sub
                                       @ ''</h3>'' @ sub_content sub) subs))
            @ (case section_table s of None \<Rightarrow> '''' | Some t \<Rightarrow> renderTable t)
            @ (case section_columns s of None \<Rightarrow> '''' | Some cs \<Rightarrow> renderColumns cs)
            @ (case section_relatedLinks s of None \<Rightarrow> '''' | Some ls \<Rightarrow> renderRelatedLinks ls)
            @ (case section_references s of None \<Rightarrow> '''' | Some rs \<Rightarrow> renderReferences rs)
            @ (case section_externalLinks s of None \<Rightarrow> '''' | Some ls \<Rightarrow> renderExternalLinks ls)
            @ ''</section>''\<close>
    by (simp add: renderSection_def Let_def foldl_append_concat split: option.splits)
qed

theorem renderArticle_section_order_witness:
  \<open>renderArticle demo_article =
       ''<h1 class="article-title">Logic</h1>''
       @ ''<div class="article-intro"><p>The study of reasoning.</p></div>''
       @ toc_open @ ''</ul></div>''
       @ ''<section id="history"><h2><span class="section-edit">[<a href="#">'' @ edit_label
       @ ''</a>]</span>History</h2><p>Aristotle.</p></section>''
       @ ''<section id="systems"><h2><span class="section-edit">[<a href="#">'' @ edit_label
       @ ''</a>]</span>Systems</h2><h3 id="modal">Modal logic</h3><p>Kripke.</p></section>''
       @ ''<section id="notes"><h2><span class="section-edit">[<a href="#">'' @ edit_label
       @ ''</a>]</span>Notes</h2><ul><li><a href="https://example.org" class="external">Archive</a></li></ul></section>''
       @ ''<div class="categories"><span class="categories-title">'' @ category_label
       @ '':</span><ul><li><a href="#">Philosophy</a></li></ul></div>''\<close>
  using renderArticle_section_order [of demo_article]
  by (simp add: demo_article_def demo_minimal_def renderToc_def renderCategories_def
      renderLink_entry_def renderExternalLinks_def)

subsection \<open>The notice box\<close>

text \<open>
  Claim C9, as amended. For every article record whose \<open>notice\<close> is present, the markup
  starts with the notice box, and the box has the class \<open>notice.type\<close>, or \<open>info\<close> when
  \<open>type\<close> is absent or the empty string, the icon \<open>notice.icon\<close>, or the fixed glyph
  when \<open>icon\<close> is absent or the empty string, and the bold \<open>notice.title\<close> followed by
  \<open>notice.text\<close>.

  The claim as written gives the default only to an absent field. The code writes
  \<^verbatim>\<open>notice.type || 'info'\<close>, which also replaces a present, empty string.
\<close>

theorem renderNotice_defaults:
  \<open>article_notice a = Some n \<Longrightarrow>
     renderArticle a = renderNotice n @ renderArticle (a\<lparr>article_notice := None\<rparr>) \<and>
     renderNotice n =
       ''\<newline>            <div class="article-notice ''
       @ (case notice_type n of None \<Rightarrow> ''info'' | Some t \<Rightarrow> if t = '''' then ''info'' else t)
       @ ''">\<newline>                <span class="notice-icon">''
       @ (case notice_icon n of None \<Rightarrow> info_glyph | Some i \<Rightarrow> if i = '''' then info_glyph else i)
       @ ''</span>\<newline>                <div class="notice-content">\<newline>                    <b>''
       @ notice_title n @ ''</b> '' @ notice_text n
       @ ''\<newline>                </div>\<newline>            </div>\<newline>        ''\<close>
  by (simp add: renderArticle_def renderNotice_def js_or_def foldl_append_concat Let_def
      split: option.splits)

theorem renderNotice_defaults_witness:
  \<open>article_notice (demo_minimal\<lparr>article_notice := Some demo_notice\<rparr>) = Some demo_notice
   \<and> renderArticle (demo_minimal\<lparr>article_notice := Some demo_notice\<rparr>) =
       renderNotice demo_notice @ renderArticle demo_minimal
   \<and> renderNotice demo_notice =
       ''\<newline>            <div class="article-notice warning">\<newline>                <span class="notice-icon">''
       @ info_glyph
       @ ''</span>\<newline>                <div class="notice-content">\<newline>                    <b>Archived</b> This page is no longer updated.\<newline>                </div>\<newline>            </div>\<newline>        ''\<close>
  using renderNotice_defaults [of "demo_minimal\<lparr>article_notice := Some demo_notice\<rparr>" demo_notice]
  by (simp add: demo_minimal_def demo_notice_def)

text \<open>A notice whose \<open>type\<close> and \<open>icon\<close> are present and empty: the box has the class
  \<open>info\<close> and the fixed glyph, not the empty class and icon that the fields hold.\<close>

theorem renderNotice_empty_type_counterexample:
  \<open>renderNotice \<lparr>notice_type = Some '''', notice_icon = Some '''',
                  notice_title = ''T'', notice_text = ''x''\<rparr>
     = ''\<newline>            <div class="article-notice info">\<newline>                <span class="notice-icon">''
       @ info_glyph
       @ ''</span>\<newline>                <div class="notice-content">\<newline>                    <b>T</b> x\<newline>                </div>\<newline>            </div>\<newline>        ''
   \<and> renderNotice \<lparr>notice_type = Some '''', notice_icon = Some '''',
                  notice_title = ''T'', notice_text = ''x''\<rparr>
     \<noteq> ''\<newline>            <div class="article-notice ">\<newline>                <span class="notice-icon">''
       @ ''</span>\<newline>                <div class="notice-content">\<newline>                    <b>T</b> x\<newline>                </div>\<newline>            </div>\<newline>        ''\<close>
  by (simp add: renderNotice_def js_or_def info_glyph_def)

section \<open>Properties of the assembler\<close>

subsection \<open>Paths, lookup and update\<close>

text \<open>An element found by \<open>querySelector\<close> is an element of the page that the
  selector matches.\<close>

lemma querySelector_sound_aux:
  "\<forall>p. querySelector_node m d = Some p \<longrightarrow>
        (\<exists>l cs. subtree d p = Some (Element l cs) \<and> m l)"
  and
  "\<forall>p. querySelector_list m i ds = Some p \<longrightarrow>
        (\<exists>j q l cs. p = (i + j) # q \<and> j < length ds \<and>
                    subtree (ds ! j) q = Some (Element l cs) \<and> m l)"
proof (induction m d and m i ds rule: querySelector_node_querySelector_list.induct)
  case (1 m t)
  show ?case by simp
next
  case (2 m l cs)
  show ?case
  proof (intro allI impI)
    fix p
    assume found: "querySelector_node m (Element l cs) = Some p"
    show "\<exists>l' cs'. subtree (Element l cs) p = Some (Element l' cs') \<and> m l'"
    proof (cases "m l")
      case True
      with found show ?thesis by simp
    next
      case False
      with found have "querySelector_list m 0 cs = Some p" by simp
      with 2 False obtain j q l' cs' where
        "p = j # q" "j < length cs" "subtree (cs ! j) q = Some (Element l' cs')" "m l'"
        by fastforce
      then show ?thesis by simp
    qed
  qed
next
  case (3 m i)
  show ?case by simp
next
  case (4 m i c cs)
  show ?case
  proof (intro allI impI)
    fix p
    assume found: "querySelector_list m i (c # cs) = Some p"
    show "\<exists>j q l cs'. p = (i + j) # q \<and> j < length (c # cs) \<and>
            subtree ((c # cs) ! j) q = Some (Element l cs') \<and> m l"
    proof (cases "querySelector_node m c")
      case (Some q)
      with found have p: "p = i # q" by simp
      from Some 4(1) obtain l cs' where "subtree c q = Some (Element l cs')" "m l"
        by blast
      with p have "p = (i + 0) # q \<and> 0 < length (c # cs) \<and>
            subtree ((c # cs) ! 0) q = Some (Element l cs') \<and> m l"
        by simp
      then show ?thesis by blast
    next
      case None
      with found have "querySelector_list m (Suc i) cs = Some p" by simp
      with None 4(2) obtain j q l cs' where
        "p = (Suc i + j) # q" "j < length cs" "subtree (cs ! j) q = Some (Element l cs')" "m l"
        by blast
      then have "p = (i + Suc j) # q \<and> Suc j < length (c # cs) \<and>
            subtree ((c # cs) ! Suc j) q = Some (Element l cs') \<and> m l"
        by simp
      then show ?thesis by blast
    qed
  qed
qed

lemma querySelector_sound:
  "querySelector pf selector d = Inr (Some p) \<Longrightarrow>
     \<exists>l cs. subtree d p = Some (Element l cs) \<and> matches pf selector l"
  using querySelector_sound_aux(1) [of "matches pf selector" d]
  by (simp add: querySelector_def split: if_splits)

lemma subtree_update_children:
  "subtree d p = Some (Element l cs) \<Longrightarrow>
     subtree (update_children p f d) p = Some (Element l (f cs))"
proof (induction p arbitrary: d)
  case Nil
  then show ?case by simp
next
  case (Cons i p)
  then show ?case by (cases d) (auto split: if_splits)
qed

lemma subtree_snoc:
  "subtree d (q @ [i]) = Some t \<Longrightarrow>
     \<exists>pl pcs. subtree d q = Some (Element pl pcs) \<and> i < length pcs \<and> pcs ! i = t"
proof (induction q arbitrary: d)
  case Nil
  then show ?case by (cases d) (auto split: if_splits)
next
  case (Cons j q)
  then show ?case by (cases d) (auto split: if_splits)
qed

subsection \<open>What one call of loadPart does\<close>

lemma loadPart_replace:
  "fetch_text pf partPath = Some html \<Longrightarrow> querySelector pf selector (dom pg) = Inr (Some target) \<Longrightarrow>
   pos \<notin> {''append'', ''prepend'', ''before'', ''after''} \<Longrightarrow>
     loadPart pf partPath selector (Some pos) pg =
       Inr (pg\<lparr>dom := update_children target (\<lambda>cs. parse_fragment pf html) (dom pg)\<rparr>)"
  by (simp add: loadPart_def loadPart_try_def set_innerHTML_def)

lemma loadPart_append:
  "fetch_text pf partPath = Some html \<Longrightarrow> querySelector pf selector (dom pg) = Inr (Some target) \<Longrightarrow>
     loadPart pf partPath selector (Some ''append'') pg =
       Inr (pg\<lparr>dom := update_children target (\<lambda>cs. cs @ parse_fragment pf html) (dom pg)\<rparr>)"
  by (simp add: loadPart_def loadPart_try_def)

lemma loadPart_prepend:
  "fetch_text pf partPath = Some html \<Longrightarrow> querySelector pf selector (dom pg) = Inr (Some target) \<Longrightarrow>
     loadPart pf partPath selector (Some ''prepend'') pg =
       Inr (pg\<lparr>dom := update_children target (\<lambda>cs. parse_fragment pf html @ cs) (dom pg)\<rparr>)"
  by (simp add: loadPart_def loadPart_try_def)

lemma loadPart_before:
  "fetch_text pf partPath = Some html \<Longrightarrow>
   querySelector pf selector (dom pg) = Inr (Some (parent @ [i])) \<Longrightarrow>
     loadPart pf partPath selector (Some ''before'') pg =
       Inr (pg\<lparr>dom := update_children parent
                          (\<lambda>cs. take i cs @ parse_fragment pf html @ drop i cs) (dom pg)\<rparr>)"
  by (simp add: loadPart_def loadPart_try_def)

lemma loadPart_after:
  "fetch_text pf partPath = Some html \<Longrightarrow>
   querySelector pf selector (dom pg) = Inr (Some (parent @ [i])) \<Longrightarrow>
     loadPart pf partPath selector (Some ''after'') pg =
       Inr (pg\<lparr>dom := update_children parent
                          (\<lambda>cs. take (Suc i) cs @ parse_fragment pf html @ drop (Suc i) cs)
                          (dom pg)\<rparr>)"
  by (simp add: loadPart_def loadPart_try_def)

lemma take_drop_before: "i < length xs \<Longrightarrow> take i xs @ F @ drop i xs = take i xs @ F @ xs ! i # drop (Suc i) xs"
  by (simp add: Cons_nth_drop_Suc)

lemma take_drop_after:
  "i < length xs \<Longrightarrow> take (Suc i) xs @ F @ drop (Suc i) xs = take i xs @ xs ! i # F @ drop (Suc i) xs"
  by (simp add: take_Suc_conv_app_nth)


subsection \<open>The five positions\<close>

text \<open>
  Claim C3, as amended. For every part whose fetch succeeds and whose target is found,
  the five position values act as follows: \<open>replace\<close> makes the fetched content the
  whole contents of the target; \<open>append\<close> inserts it after the last child of the
  target; \<open>prepend\<close> inserts it before the first child; \<open>before\<close> and \<open>after\<close>
  insert it as the sibling just before and just after the target, the target itself
  unchanged, when the target has a parent element.

  The claim as written pairs \<open>append\<close> with the first child and \<open>prepend\<close> with the
  last child; the code maps \<open>append\<close> to \<open>beforeend\<close> and \<open>prepend\<close> to
  \<open>afterbegin\<close>. For the root element, \<open>before\<close> and \<open>after\<close> insert nothing: the
  DOM throws and the \<^verbatim>\<open>catch\<close> logs the error.
\<close>

theorem loadPart_positions:
  assumes fetched: "fetch_text pf partPath = Some html"
    and found: "querySelector pf selector (dom pg) = Inr (Some target)"
  shows "\<exists>l cs. subtree (dom pg) target = Some (Element l cs) \<and>
           (\<exists>pg'. loadPart pf partPath selector (Some ''replace'') pg = Inr pg' \<and>
                  subtree (dom pg') target = Some (Element l (parse_fragment pf html))) \<and>
           (\<exists>pg'. loadPart pf partPath selector (Some ''append'') pg = Inr pg' \<and>
                  subtree (dom pg') target = Some (Element l (cs @ parse_fragment pf html))) \<and>
           (\<exists>pg'. loadPart pf partPath selector (Some ''prepend'') pg = Inr pg' \<and>
                  subtree (dom pg') target = Some (Element l (parse_fragment pf html @ cs))) \<and>
           (\<forall>parent i. target = parent @ [i] \<longrightarrow>
              (\<exists>pl pcs. subtree (dom pg) parent = Some (Element pl pcs) \<and> i < length pcs \<and>
                 pcs ! i = Element l cs \<and>
                 (\<exists>pg'. loadPart pf partPath selector (Some ''before'') pg = Inr pg' \<and>
                        subtree (dom pg') parent =
                          Some (Element pl (take i pcs @ parse_fragment pf html
                                            @ Element l cs # drop (Suc i) pcs))) \<and>
                 (\<exists>pg'. loadPart pf partPath selector (Some ''after'') pg = Inr pg' \<and>
                        subtree (dom pg') parent =
                          Some (Element pl (take i pcs @ Element l cs # parse_fragment pf html
                                            @ drop (Suc i) pcs)))))"
proof -
  from querySelector_sound [OF found] obtain l cs where
    target: "subtree (dom pg) target = Some (Element l cs)"
    by blast
  have replace: "\<exists>pg'. loadPart pf partPath selector (Some ''replace'') pg = Inr pg' \<and>
                  subtree (dom pg') target = Some (Element l (parse_fragment pf html))"
    using loadPart_replace [OF fetched found, of "''replace''"]
      subtree_update_children [OF target, of "\<lambda>cs. parse_fragment pf html"]
    by simp
  have append: "\<exists>pg'. loadPart pf partPath selector (Some ''append'') pg = Inr pg' \<and>
                  subtree (dom pg') target = Some (Element l (cs @ parse_fragment pf html))"
    using loadPart_append [OF fetched found]
      subtree_update_children [OF target, of "\<lambda>cs. cs @ parse_fragment pf html"]
    by simp
  have prepend: "\<exists>pg'. loadPart pf partPath selector (Some ''prepend'') pg = Inr pg' \<and>
                  subtree (dom pg') target = Some (Element l (parse_fragment pf html @ cs))"
    using loadPart_prepend [OF fetched found]
      subtree_update_children [OF target, of "\<lambda>cs. parse_fragment pf html @ cs"]
    by simp
  have siblings: "\<exists>pl pcs. subtree (dom pg) parent = Some (Element pl pcs) \<and> i < length pcs \<and>
                 pcs ! i = Element l cs \<and>
                 (\<exists>pg'. loadPart pf partPath selector (Some ''before'') pg = Inr pg' \<and>
                        subtree (dom pg') parent =
                          Some (Element pl (take i pcs @ parse_fragment pf html
                                            @ Element l cs # drop (Suc i) pcs))) \<and>
                 (\<exists>pg'. loadPart pf partPath selector (Some ''after'') pg = Inr pg' \<and>
                        subtree (dom pg') parent =
                          Some (Element pl (take i pcs @ Element l cs # parse_fragment pf html
                                            @ drop (Suc i) pcs)))"
    if split: "target = parent @ [i]" for parent i
  proof -
    from found split have found': "querySelector pf selector (dom pg) = Inr (Some (parent @ [i]))"
      by simp
    from target split have "subtree (dom pg) (parent @ [i]) = Some (Element l cs)"
      by simp
    from subtree_snoc [OF this] obtain pl pcs where
      parent: "subtree (dom pg) parent = Some (Element pl pcs)" and i: "i < length pcs"
      and nth: "pcs ! i = Element l cs"
      by blast
    have "subtree (update_children parent
                   (\<lambda>cs. take i cs @ parse_fragment pf html @ drop i cs) (dom pg)) parent =
                Some (Element pl (take i pcs @ parse_fragment pf html @ Element l cs # drop (Suc i) pcs))"
      using subtree_update_children [OF parent] take_drop_before [OF i] nth by simp
    moreover have "subtree (update_children parent
                   (\<lambda>cs. take (Suc i) cs @ parse_fragment pf html @ drop (Suc i) cs) (dom pg)) parent =
                Some (Element pl (take i pcs @ Element l cs # parse_fragment pf html @ drop (Suc i) pcs))"
      using subtree_update_children [OF parent] take_drop_after [OF i] nth by simp
    ultimately show ?thesis
      using parent i nth loadPart_before [OF fetched found'] loadPart_after [OF fetched found']
      by simp
  qed
  from target replace append prepend siblings show ?thesis
    by blast
qed

theorem loadPart_positions_witness:
  "fetch_text demo_platform ''parts/header.html'' = Some ''content of parts/header.html''
   \<and> querySelector demo_platform ''#sidebar-placeholder'' (dom demo_page) = Inr (Some [1, 0])
   \<and> subtree (dom demo_page) [1, 0] = Some (Element ''sidebar-placeholder'' [Text ''loading''])
   \<and> loadPart demo_platform ''parts/header.html'' ''#sidebar-placeholder'' (Some ''replace'') demo_page =
       Inr \<lparr>dom = Element ''root''
              [Element ''header-placeholder'' [],
               Element ''main''
                 [Element ''sidebar-placeholder'' [Text ''content of parts/header.html''],
                  Element ''article-tabs-placeholder'' [Text ''loading'']],
               Element ''footer-placeholder'' []],
            console = []\<rparr>
   \<and> loadPart demo_platform ''parts/header.html'' ''#sidebar-placeholder'' (Some ''append'') demo_page =
       Inr \<lparr>dom = Element ''root''
              [Element ''header-placeholder'' [],
               Element ''main''
                 [Element ''sidebar-placeholder''
                    [Text ''loading'', Text ''content of parts/header.html''],
                  Element ''article-tabs-placeholder'' [Text ''loading'']],
               Element ''footer-placeholder'' []],
            console = []\<rparr>
   \<and> loadPart demo_platform ''parts/header.html'' ''#sidebar-placeholder'' (Some ''prepend'') demo_page =
       Inr \<lparr>dom = Element ''root''
              [Element ''header-placeholder'' [],
               Element ''main''
                 [Element ''sidebar-placeholder''
                    [Text ''content of parts/header.html'', Text ''loading''],
                  Element ''article-tabs-placeholder'' [Text ''loading'']],
               Element ''footer-placeholder'' []],
            console = []\<rparr>
   \<and> loadPart demo_platform ''parts/header.html'' ''#sidebar-placeholder'' (Some ''before'') demo_page =
       Inr \<lparr>dom = Element ''root''
              [Element ''header-placeholder'' [],
               Element ''main''
                 [Text ''content of parts/header.html'',
                  Element ''sidebar-placeholder'' [Text ''loading''],
                  Element ''article-tabs-placeholder'' [Text ''loading'']],
               Element ''footer-placeholder'' []],
            console = []\<rparr>
   \<and> loadPart demo_platform ''parts/header.html'' ''#sidebar-placeholder'' (Some ''after'') demo_page =
       Inr \<lparr>dom = Element ''root''
              [Element ''header-placeholder'' [],
               Element ''main''
                 [Element ''sidebar-placeholder'' [Text ''loading''],
                  Text ''content of parts/header.html'',
                  Element ''article-tabs-placeholder'' [Text ''loading'']],
               Element ''footer-placeholder'' []],
            console = []\<rparr>"
  using loadPart_positions [of demo_platform "''parts/header.html''" "''content of parts/header.html''"
      "''#sidebar-placeholder''" demo_page "[1, 0]"]
  by (simp add: demo_platform_def demo_page_def loadPart_def loadPart_try_def
      querySelector_def set_innerHTML_def)

text \<open>The placeholder holds the text \<open>loading\<close>. With \<open>append\<close> the fetched content
  is its last child, with \<open>prepend\<close> its first child; and \<open>after\<close> on the root
  element leaves the page as it was.\<close>

theorem loadPart_append_prepend_counterexample:
  "loadPart demo_platform ''parts/header.html'' ''#sidebar-placeholder'' (Some ''append'') demo_page =
       Inr \<lparr>dom = Element ''root''
              [Element ''header-placeholder'' [],
               Element ''main''
                 [Element ''sidebar-placeholder''
                    [Text ''loading'', Text ''content of parts/header.html''],
                  Element ''article-tabs-placeholder'' [Text ''loading'']],
               Element ''footer-placeholder'' []],
            console = []\<rparr>
   \<and> loadPart demo_platform ''parts/header.html'' ''#sidebar-placeholder'' (Some ''prepend'') demo_page =
       Inr \<lparr>dom = Element ''root''
              [Element ''header-placeholder'' [],
               Element ''main''
                 [Element ''sidebar-placeholder''
                    [Text ''content of parts/header.html'', Text ''loading''],
                  Element ''article-tabs-placeholder'' [Text ''loading'']],
               Element ''footer-placeholder'' []],
            console = []\<rparr>
   \<and> querySelector demo_platform ''#root'' (dom demo_page) = Inr (Some [])
   \<and> loadPart demo_platform ''parts/header.html'' ''#root'' (Some ''after'') demo_page =
       Inr (demo_page\<lparr>console := [Error NoModificationAllowedError]\<rparr>)"
  by (simp add: demo_platform_def demo_page_def loadPart_def loadPart_try_def
      querySelector_def)


subsection \<open>An unrecognized position is replace\<close>

lemma loadPart_unrecognized:
  "pos \<notin> {''append'', ''prepend'', ''before'', ''after''} \<Longrightarrow>
     loadPart pf partPath selector (Some pos) pg = loadPart pf partPath selector (Some ''replace'') pg"
  by (simp add: loadPart_def loadPart_try_def split: option.splits sum.splits)

lemma settle_cong:
  "list_all2 (\<lambda>p q. \<forall>pg. loadParts_call pf p pg = loadParts_call pf q pg) ps qs \<Longrightarrow>
     settle pf ps pg = settle pf qs pg"
proof (induction ps qs arbitrary: pg rule: list_all2_induct)
  case Nil
  show ?case by simp
next
  case (Cons p ps q qs)
  then show ?case by (simp split: sum.splits)
qed

text \<open>
  Claim C10. For every part whose position is a string other than \<open>append\<close>,
  \<open>prepend\<close>, \<open>before\<close> and \<open>after\<close> (the empty string and any unknown word
  included), \<open>loadPart\<close> does exactly what it does for \<open>replace\<close>: when the fetch
  succeeds and the target is found, the fetched content becomes the whole contents of
  the target. The same holds through \<open>loadParts\<close>: giving such a part the position
  \<open>replace\<close> changes nothing.
\<close>

theorem loadPart_default_is_replace:
  assumes other: "pos \<notin> {''append'', ''prepend'', ''before'', ''after''}"
  shows "loadPart pf partPath selector (Some pos) pg =
           loadPart pf partPath selector (Some ''replace'') pg
       \<and> (\<forall>html target. fetch_text pf partPath = Some html \<longrightarrow>
             querySelector pf selector (dom pg) = Inr (Some target) \<longrightarrow>
             (\<exists>l cs pg'. subtree (dom pg) target = Some (Element l cs) \<and>
                loadPart pf partPath selector (Some pos) pg = Inr pg' \<and>
                subtree (dom pg') target = Some (Element l (parse_fragment pf html))))
       \<and> (\<forall>parts k order. k < length parts \<longrightarrow> part_position (parts ! k) = Some pos \<longrightarrow>
             loadParts pf parts order pg =
             loadParts pf (parts[k := (parts ! k)\<lparr>part_position := Some ''replace''\<rparr>]) order pg)"
proof (intro conjI allI impI)
  show "loadPart pf partPath selector (Some pos) pg =
           loadPart pf partPath selector (Some ''replace'') pg"
    using other by (rule loadPart_unrecognized)
next
  fix html target
  assume fetched: "fetch_text pf partPath = Some html"
    and found: "querySelector pf selector (dom pg) = Inr (Some target)"
  from querySelector_sound [OF found] obtain l cs where
    target: "subtree (dom pg) target = Some (Element l cs)"
    by blast
  show "\<exists>l cs pg'. subtree (dom pg) target = Some (Element l cs) \<and>
                loadPart pf partPath selector (Some pos) pg = Inr pg' \<and>
                subtree (dom pg') target = Some (Element l (parse_fragment pf html))"
    using target loadPart_replace [OF fetched found other]
      subtree_update_children [OF target, of "\<lambda>cs. parse_fragment pf html"]
    by simp
next
  fix parts :: "part list" and k order
  assume k: "k < length parts" and pos: "part_position (parts ! k) = Some pos"
  let ?p' = "(parts ! k)\<lparr>part_position := Some ''replace''\<rparr>"
  have call: "loadParts_call pf (parts ! k) pg0 = loadParts_call pf ?p' pg0" for pg0
  proof (cases "pos = []")
    case True
    with pos show ?thesis by (simp add: loadParts_call_def js_or_def)
  next
    case False
    with pos loadPart_unrecognized [OF other] show ?thesis
      by (simp add: loadParts_call_def js_or_def)
  qed
  have "list_all2 (\<lambda>p q. \<forall>pg. loadParts_call pf p pg = loadParts_call pf q pg)
          (map (\<lambda>i. parts ! i) order) (map (\<lambda>i. parts[k := ?p'] ! i) order)"
    using k call by (auto simp: list_all2_conv_all_nth nth_list_update)
  then show "loadParts pf parts order pg = loadParts pf (parts[k := ?p']) order pg"
    unfolding loadParts_def by (rule settle_cong)
qed

theorem loadPart_default_is_replace_witness:
  "''middle'' \<notin> {''append'', ''prepend'', ''before'', ''after''}
   \<and> loadPart demo_platform ''parts/header.html'' ''#sidebar-placeholder'' (Some ''middle'') demo_page =
       loadPart demo_platform ''parts/header.html'' ''#sidebar-placeholder'' (Some ''replace'') demo_page
   \<and> loadPart demo_platform ''parts/header.html'' ''#sidebar-placeholder'' (Some ''middle'') demo_page =
       Inr \<lparr>dom = Element ''root''
              [Element ''header-placeholder'' [],
               Element ''main''
                 [Element ''sidebar-placeholder'' [Text ''content of parts/header.html''],
                  Element ''article-tabs-placeholder'' [Text ''loading'']],
               Element ''footer-placeholder'' []],
            console = []\<rparr>
   \<and> loadParts demo_platform
         [\<lparr>part_path = ''parts/header.html'', part_selector = ''#sidebar-placeholder'',
           part_position = Some ''middle''\<rparr>] [0] demo_page =
       loadParts demo_platform
         [\<lparr>part_path = ''parts/header.html'', part_selector = ''#sidebar-placeholder'',
           part_position = Some ''replace''\<rparr>] [0] demo_page"
  using loadPart_default_is_replace [of "''middle''" demo_platform "''parts/header.html''"
      "''#sidebar-placeholder''" demo_page]
  by (simp add: demo_platform_def demo_page_def loadPart_def loadPart_try_def
      querySelector_def set_innerHTML_def loadParts_def loadParts_call_def js_or_def)


subsection \<open>Siblings before and after the target\<close>

text \<open>
  Claim C7, as amended. For every part with position \<open>before\<close> or \<open>after\<close> whose
  fetch succeeds and whose target is found and has a parent element, the child list of
  the parent afterwards is the old one with the fetched content inserted just before
  (respectively just after) the target, and the target node, with all its contents, is
  in that list unchanged.

  The claim as written covers every target that exists. The root element of the page
  has no parent element: there \<^verbatim>\<open>insertAdjacentHTML\<close> throws, the
  \<^verbatim>\<open>catch\<close> logs the error, and nothing is inserted.
\<close>

theorem loadPart_before_after:
  assumes fetched: "fetch_text pf partPath = Some html"
    and found: "querySelector pf selector (dom pg) = Inr (Some (parent @ [i]))"
  shows "\<exists>pl pcs. subtree (dom pg) parent = Some (Element pl pcs) \<and> i < length pcs \<and>
           (\<exists>pg'. loadPart pf partPath selector (Some ''before'') pg = Inr pg' \<and>
                  subtree (dom pg') parent =
                    Some (Element pl (take i pcs @ parse_fragment pf html @ pcs ! i # drop (Suc i) pcs))) \<and>
           (\<exists>pg'. loadPart pf partPath selector (Some ''after'') pg = Inr pg' \<and>
                  subtree (dom pg') parent =
                    Some (Element pl (take i pcs @ pcs ! i # parse_fragment pf html @ drop (Suc i) pcs)))"
proof -
  from querySelector_sound [OF found] obtain l cs where
    target: "subtree (dom pg) (parent @ [i]) = Some (Element l cs)"
    by blast
  from subtree_snoc [OF target] obtain pl pcs where
    parent: "subtree (dom pg) parent = Some (Element pl pcs)" and i: "i < length pcs"
    by blast
  have before: "subtree (update_children parent
                   (\<lambda>cs. take i cs @ parse_fragment pf html @ drop i cs) (dom pg)) parent =
                Some (Element pl (take i pcs @ parse_fragment pf html @ pcs ! i # drop (Suc i) pcs))"
    using subtree_update_children [OF parent] take_drop_before [OF i] by simp
  have after: "subtree (update_children parent
                   (\<lambda>cs. take (Suc i) cs @ parse_fragment pf html @ drop (Suc i) cs) (dom pg)) parent =
                Some (Element pl (take i pcs @ pcs ! i # parse_fragment pf html @ drop (Suc i) pcs))"
    using subtree_update_children [OF parent] take_drop_after [OF i] by simp
  show ?thesis
    using parent i before after loadPart_before [OF fetched found] loadPart_after [OF fetched found]
    by simp
qed

theorem loadPart_before_after_witness:
  "fetch_text demo_platform ''parts/header.html'' = Some ''content of parts/header.html''
   \<and> querySelector demo_platform ''#sidebar-placeholder'' (dom demo_page) = Inr (Some ([1] @ [0]))
   \<and> subtree (dom demo_page) [1] =
       Some (Element ''main''
               [Element ''sidebar-placeholder'' [Text ''loading''],
                Element ''article-tabs-placeholder'' [Text ''loading'']])
   \<and> (case loadPart demo_platform ''parts/header.html'' ''#sidebar-placeholder'' (Some ''before'')
              demo_page of
         Inl e \<Rightarrow> None | Inr pg' \<Rightarrow> subtree (dom pg') [1]) =
       Some (Element ''main''
               [Text ''content of parts/header.html'',
                Element ''sidebar-placeholder'' [Text ''loading''],
                Element ''article-tabs-placeholder'' [Text ''loading'']])
   \<and> (case loadPart demo_platform ''parts/header.html'' ''#sidebar-placeholder'' (Some ''after'')
              demo_page of
         Inl e \<Rightarrow> None | Inr pg' \<Rightarrow> subtree (dom pg') [1]) =
       Some (Element ''main''
               [Element ''sidebar-placeholder'' [Text ''loading''],
                Text ''content of parts/header.html'',
                Element ''article-tabs-placeholder'' [Text ''loading'']])"
  using loadPart_before_after [of demo_platform "''parts/header.html''"
      "''content of parts/header.html''" "''#sidebar-placeholder''" demo_page "[1]" 0]
  by (simp add: demo_platform_def demo_page_def loadPart_def loadPart_try_def
      querySelector_def)

text \<open>The selector \<open>#root\<close> finds the root element and the fetch succeeds, yet
  \<open>before\<close> and \<open>after\<close> leave the page unchanged and log the error.\<close>

theorem loadPart_before_root_counterexample:
  "fetch_text demo_platform ''parts/header.html'' = Some ''content of parts/header.html''
   \<and> querySelector demo_platform ''#root'' (dom demo_page) = Inr (Some [])
   \<and> loadPart demo_platform ''parts/header.html'' ''#root'' (Some ''before'') demo_page =
       Inr (demo_page\<lparr>console := [Error NoModificationAllowedError]\<rparr>)
   \<and> loadPart demo_platform ''parts/header.html'' ''#root'' (Some ''after'') demo_page =
       Inr (demo_page\<lparr>console := [Error NoModificationAllowedError]\<rparr>)"
  by (simp add: demo_platform_def demo_page_def loadPart_def loadPart_try_def
      querySelector_def)


subsection \<open>A failed fetch stays with its own part\<close>

lemma loadParts_call_fulfilled: "\<exists>pg'. loadParts_call pf p pg = Inr pg'"
  by (simp add: loadParts_call_def loadPart_def split: sum.splits)

lemma loadParts_call_failed:
  "fetch_text pf (part_path p) = None \<Longrightarrow>
     loadParts_call pf p pg = Inr (pg\<lparr>console := console pg @ [Error (FetchFailed (part_path p))]\<rparr>)"
  by (simp add: loadParts_call_def loadPart_def loadPart_try_def)

lemma loadParts_call_dom:
  "dom pg1 = dom pg2 \<Longrightarrow> loadParts_call pf p pg1 = Inr r1 \<Longrightarrow> loadParts_call pf p pg2 = Inr r2 \<Longrightarrow>
     dom r1 = dom r2"
proof -
  assume same: "dom pg1 = dom pg2"
    and r1: "loadParts_call pf p pg1 = Inr r1" and r2: "loadParts_call pf p pg2 = Inr r2"
  have strip: "loadParts_call pf p pg =
      map_sum id (\<lambda>r. r\<lparr>console := console pg @ console r\<rparr>)
        (loadParts_call pf p (pg\<lparr>console := []\<rparr>))" for pg
    by (simp add: loadParts_call_def loadPart_def loadPart_try_def sum.map_comp comp_def
        split: option.splits sum.splits)
  from same have "pg1\<lparr>console := []\<rparr> = pg2\<lparr>console := []\<rparr>"
    by simp
  with strip [of pg1] strip [of pg2] r1 r2 show "dom r1 = dom r2"
    by (cases "loadParts_call pf p (pg2\<lparr>console := []\<rparr>)") auto
qed

lemma settle_fulfilled: "\<exists>pg'. settle pf ps pg = Inr pg'"
proof (induction ps arbitrary: pg)
  case Nil
  show ?case by simp
next
  case (Cons p ps)
  from loadParts_call_fulfilled obtain pg1 where "loadParts_call pf p pg = Inr pg1"
    by blast
  with Cons.IH [of pg1] show ?case by simp
qed

lemma settle_skips_failed:
  "fetch_text pf (part_path (parts ! k)) = None \<Longrightarrow> dom pg1 = dom pg2 \<Longrightarrow>
   settle pf (map (\<lambda>i. parts ! i) order) pg1 = Inr r1 \<Longrightarrow>
   settle pf (map (\<lambda>i. parts ! i) (removeAll k order)) pg2 = Inr r2 \<Longrightarrow>
     dom r1 = dom r2"
proof (induction order arbitrary: pg1 pg2)
  case Nil
  then show ?case by simp
next
  case (Cons i order)
  from loadParts_call_fulfilled obtain s1 where s1: "loadParts_call pf (parts ! i) pg1 = Inr s1"
    by blast
  with Cons.prems(3) have rest1: "settle pf (map (\<lambda>i. parts ! i) order) s1 = Inr r1"
    by simp
  show ?case
  proof (cases "i = k")
    case True
    with s1 Cons.prems(1) have "dom s1 = dom pg1"
      by (auto simp: loadParts_call_failed)
    with Cons.prems(2) have "dom s1 = dom pg2" by simp
    moreover from True Cons.prems(4)
    have "settle pf (map (\<lambda>i. parts ! i) (removeAll k order)) pg2 = Inr r2"
      by simp
    ultimately show ?thesis
      using Cons.IH [OF Cons.prems(1) _ rest1] by blast
  next
    case False
    from loadParts_call_fulfilled obtain s2 where s2: "loadParts_call pf (parts ! i) pg2 = Inr s2"
      by blast
    with False Cons.prems(4)
    have rest2: "settle pf (map (\<lambda>i. parts ! i) (removeAll k order)) s2 = Inr r2"
      by simp
    from loadParts_call_dom [OF Cons.prems(2) s1 s2] have "dom s1 = dom s2" .
    then show ?thesis
      using Cons.IH [OF Cons.prems(1) _ rest1 rest2] by blast
  qed
qed

text \<open>A failing call changes nothing on any page: \<open>loadParts\<close> is fulfilled, and it
  ends with the page that loading the other parts alone, in the same order, ends with.\<close>

lemma loadParts_failure_isolated:
  assumes order: "mset order = mset [0..<length parts]"
    and k: "k < length parts"
    and failed: "fetch_text pf (part_path (parts ! k)) = None"
  shows "\<exists>pg' pg''. loadParts pf parts order pg = Inr pg' \<and>
           loadParts pf parts (removeAll k order) pg = Inr pg'' \<and>
           dom pg' = dom pg'' \<and>
           (\<forall>pg0. \<exists>pg1. loadParts_call pf (parts ! k) pg0 = Inr pg1 \<and> dom pg1 = dom pg0)"
proof -
  from settle_fulfilled obtain pg' where
    all: "settle pf (map (\<lambda>i. parts ! i) order) pg = Inr pg'"
    by blast
  from settle_fulfilled obtain pg'' where
    others: "settle pf (map (\<lambda>i. parts ! i) (removeAll k order)) pg = Inr pg''"
    by blast
  have "dom pg' = dom pg''"
    using settle_skips_failed [OF failed refl all others] .
  moreover have "\<forall>pg0. \<exists>pg1. loadParts_call pf (parts ! k) pg0 = Inr pg1 \<and> dom pg1 = dom pg0"
    using failed by (simp add: loadParts_call_failed)
  ultimately show ?thesis
    using all others by (simp add: loadParts_def)
qed

text \<open>The four parts of the standard layout on the sample page, the sidebar failing: for
  every order in which the four fetches complete, each call fills its own placeholder,
  and the call for the sidebar fills nothing.\<close>

lemma demo_call:
  "i < 4 \<Longrightarrow>
     \<exists>c'. loadParts_call demo_platform (standardLayout ! i) \<lparr>dom = demo_filled h t f, console = c\<rparr> =
          Inr \<lparr>dom = demo_filled (h \<or> i = 0) (t \<or> i = 2) (f \<or> i = 3), console = c'\<rparr>"
proof -
  assume "i < 4"
  then consider "i = 0" | "i = 1" | "i = 2" | "i = 3"
    by linarith
  then show ?thesis
  proof cases
    case 1
    then show ?thesis
      by (simp add: standardLayout_def demo_platform_def demo_filled_def loadParts_call_def
          loadPart_def loadPart_try_def js_or_def querySelector_def set_innerHTML_def)
  next
    case 2
    then show ?thesis
      by (simp add: standardLayout_def demo_platform_def demo_filled_def loadParts_call_def
          loadPart_def loadPart_try_def js_or_def querySelector_def set_innerHTML_def)
  next
    case 3
    then show ?thesis
      by (simp add: standardLayout_def demo_platform_def demo_filled_def loadParts_call_def
          loadPart_def loadPart_try_def js_or_def querySelector_def set_innerHTML_def)
  next
    case 4
    then show ?thesis
      by (simp add: standardLayout_def demo_platform_def demo_filled_def loadParts_call_def
          loadPart_def loadPart_try_def js_or_def querySelector_def set_innerHTML_def)
  qed
qed

lemma demo_settle:
  "\<forall>i \<in> set order. i < 4 \<Longrightarrow>
     \<exists>c'. settle demo_platform (map (\<lambda>i. standardLayout ! i) order)
            \<lparr>dom = demo_filled h t f, console = c\<rparr> =
          Inr \<lparr>dom = demo_filled (h \<or> 0 \<in> set order) (t \<or> 2 \<in> set order) (f \<or> 3 \<in> set order),
               console = c'\<rparr>"
proof (induction order arbitrary: h t f c)
  case Nil
  show ?case by simp
next
  case (Cons i order)
  then have "i < 4" by simp
  from demo_call [OF this] obtain c1 where
    step: "loadParts_call demo_platform (standardLayout ! i) \<lparr>dom = demo_filled h t f, console = c\<rparr> =
          Inr \<lparr>dom = demo_filled (h \<or> i = 0) (t \<or> i = 2) (f \<or> i = 3), console = c1\<rparr>"
    by blast
  from Cons.prems have "\<forall>j \<in> set order. j < 4" by simp
  from Cons.IH [OF this, of "h \<or> i = 0" "t \<or> i = 2" "f \<or> i = 3" c1] obtain c' where
    "settle demo_platform (map (\<lambda>i. standardLayout ! i) order)
            \<lparr>dom = demo_filled (h \<or> i = 0) (t \<or> i = 2) (f \<or> i = 3), console = c1\<rparr> =
          Inr \<lparr>dom = demo_filled ((h \<or> i = 0) \<or> 0 \<in> set order) ((t \<or> i = 2) \<or> 2 \<in> set order)
                       ((f \<or> i = 3) \<or> 3 \<in> set order),
               console = c'\<rparr>"
    by blast
  with step have "settle demo_platform (map (\<lambda>i. standardLayout ! i) (i # order))
            \<lparr>dom = demo_filled h t f, console = c\<rparr> =
          Inr \<lparr>dom = demo_filled ((h \<or> i = 0) \<or> 0 \<in> set order) ((t \<or> i = 2) \<or> 2 \<in> set order)
                       ((f \<or> i = 3) \<or> 3 \<in> set order),
               console = c'\<rparr>"
    by simp
  moreover have "((h \<or> i = 0) \<or> 0 \<in> set order) = (h \<or> 0 \<in> set (i # order))"
    "((t \<or> i = 2) \<or> 2 \<in> set order) = (t \<or> 2 \<in> set (i # order))"
    "((f \<or> i = 3) \<or> 3 \<in> set order) = (f \<or> 3 \<in> set (i # order))"
    by auto
  ultimately show ?case by (simp only: exI)
qed

lemma standardLayout_any_order:
  "mset order = mset [0..<length standardLayout] \<Longrightarrow>
     \<exists>c'. loadParts demo_platform standardLayout order demo_page =
          Inr \<lparr>dom = demo_filled True True True, console = c'\<rparr>"
proof -
  assume perm: "mset order = mset [0..<length standardLayout]"
  then have "set order = set [0..<length standardLayout]"
    by (rule mset_eq_setD)
  moreover have "length standardLayout = 4"
    by (simp add: standardLayout_def)
  ultimately have order: "set order = {0..<4}"
    by (simp only: set_upt)
  then have members: "0 \<in> set order" "2 \<in> set order" "3 \<in> set order"
    by simp_all
  from order have "\<forall>i \<in> set order. i < 4" by simp
  from demo_settle [OF this, of False False False "[]"] members
  have "\<exists>c'. settle demo_platform (map (\<lambda>i. standardLayout ! i) order)
            \<lparr>dom = demo_filled False False False, console = []\<rparr> =
          Inr \<lparr>dom = demo_filled True True True, console = c'\<rparr>"
    by simp
  moreover have "demo_page = \<lparr>dom = demo_filled False False False, console = []\<rparr>"
    by (simp add: demo_page_def demo_filled_def)
  ultimately show ?thesis
    by (simp add: loadParts_def)
qed

subsection \<open>Splicing without the DOM\<close>































subsection \<open>Independent targets, one failed fetch\<close>
















end
